theory Spec2Isabelle
  imports Complex_Main "HOL-Library.AList"
begin

section \<open>Python values, errors and effects\<close>

text \<open>
  The module \<^verbatim>\<open>prettymaps/fetch.py\<close> is a thin layer over the osmnx, geopandas and
  shapely libraries. The embedding keeps the module's own control flow and takes the
  libraries as a parameter (a record of functions). Floats are idealised as reals.
\<close>

datatype error = KeyError | TypeError | ValueError | NameError | LibraryError string

text \<open>Values that occur in the keyword dictionaries of a layer configuration.\<close>

datatype pyval =
    PNone
  | PBool bool
  | PNum real
  | PStr string
  | PDict "(string \<times> pyval) list"

text \<open>A Python dictionary with string keys, in insertion order.\<close>

type_synonym kwargs = "(string \<times> pyval) list"

text \<open>
  A GeoDataFrame (or GeoSeries): its coordinate reference system as an EPSG code and its
  rows, each an index label with a geometry. The other columns are never read or written
  by the module and are left out.
\<close>

record 'g gdf =
  crs :: "nat option"
  rows :: "(nat \<times> 'g) list"

text \<open>
  The argument \<^verbatim>\<open>query\<close>: a GeoDataFrame, a tuple, a string, or any other value.
\<close>

datatype 'g query =
    QGdf "'g gdf"
  | QTuple "real list"
  | QStr string
  | QOther pyval

text \<open>
  A computation that may raise and that may talk to the outside world \<open>'w\<close>
  (the geocoding and map services).
\<close>

type_synonym ('a, 'w) io = "'w \<Rightarrow> (error + 'a) \<times> 'w"

definition ret :: "'a \<Rightarrow> ('a, 'w) io" where
  "ret x = (\<lambda>w. (Inr x, w))"

definition raise :: "error \<Rightarrow> ('a, 'w) io" where
  "raise e = (\<lambda>w. (Inl e, w))"

definition lift :: "error + 'a \<Rightarrow> ('a, 'w) io" where
  "lift r = (\<lambda>w. (r, w))"

definition and_then :: "('a, 'w) io \<Rightarrow> ('a \<Rightarrow> ('b, 'w) io) \<Rightarrow> ('b, 'w) io" where
  "and_then m f = (\<lambda>w. case m w of (Inl e, w') \<Rightarrow> (Inl e, w') | (Inr x, w') \<Rightarrow> f x w')"

text \<open>The same sequencing for computations that may raise but have no effect.\<close>

definition try_then :: "error + 'a \<Rightarrow> ('a \<Rightarrow> error + 'b) \<Rightarrow> error + 'b" where
  "try_then r f = (case r of Inl e \<Rightarrow> Inl e | Inr x \<Rightarrow> f x)"

section \<open>parse\_query\<close>

text \<open>
  \<^verbatim>\<open>re.match("[A-Z][0-9]+", s)\<close>: the pattern is matched at the start of the string
  only; the result is the matched text, or None.
\<close>

definition is_upper :: "char \<Rightarrow> bool" where
  "is_upper c = (65 \<le> (of_char c :: nat) \<and> (of_char c :: nat) \<le> 90)"

definition is_digit :: "char \<Rightarrow> bool" where
  "is_digit c = (48 \<le> (of_char c :: nat) \<and> (of_char c :: nat) \<le> 57)"

fun re_match_osmid :: "string \<Rightarrow> string option" where
  "re_match_osmid [] = None"
| "re_match_osmid (c # cs) =
     (if is_upper c \<and> takeWhile is_digit cs \<noteq> []
      then Some (c # takeWhile is_digit cs) else None)"

fun parse_query :: "'g query \<Rightarrow> error + string" where
  "parse_query (QGdf _) = Inr ''polygon''"
| "parse_query (QTuple _) = Inr ''coordinates''"
| "parse_query (QStr s) =
     (if re_match_osmid s \<noteq> None then Inr ''osmid'' else Inr ''address'')"
| "parse_query (QOther _) = Inl TypeError"

text \<open>
  What the claim calls an OSM-id string: one capital letter followed by one or more
  digits, and nothing else.
\<close>

definition osmid_string :: "string \<Rightarrow> bool" where
  "osmid_string s = (case s of [] \<Rightarrow> False
     | c # ds \<Rightarrow> is_upper c \<and> ds \<noteq> [] \<and> list_all is_digit ds)"

section \<open>The libraries\<close>

text \<open>
  The calls the module makes into osmnx, geopandas and shapely. The four calls that reach
  the geocoding and map services read and change the world; the others are functions of
  their arguments: they return new frames and geometries and leave the values they are
  given as they are. \<open>geom_within\<close> is shapely's \<^verbatim>\<open>within\<close>; the module does not
  call it, it states containment.
\<close>

record ('g, 'gr, 'w) library =
  geocode :: "'g query \<Rightarrow> (real list, 'w) io"
  geocode_to_gdf :: "'g query \<Rightarrow> pyval \<Rightarrow> kwargs \<Rightarrow> ('g gdf, 'w) io"
  graph_from_polygon :: "'g \<Rightarrow> pyval \<Rightarrow> ('gr, 'w) io"
  geometries_from_polygon :: "'g \<Rightarrow> pyval \<Rightarrow> ('g gdf, 'w) io"
  graph_to_gdfs :: "'gr \<Rightarrow> error + 'g gdf"
  project_gdf :: "'g gdf \<Rightarrow> error + 'g gdf"
  to_crs :: "'g gdf \<Rightarrow> nat \<Rightarrow> error + 'g gdf"
  Point :: "real list \<Rightarrow> error + 'g"
  Polygon :: "(real \<times> real) list \<Rightarrow> 'g"
  rotate_geom :: "'g \<Rightarrow> real \<Rightarrow> 'g"
  box :: "real list \<Rightarrow> error + 'g"
  bounds :: "'g \<Rightarrow> real list"
  xy :: "'g \<Rightarrow> real list \<times> real list"
  buffer :: "'g \<Rightarrow> real \<Rightarrow> 'g"
  unary_union :: "'g list \<Rightarrow> 'g"
  intersection :: "'g \<Rightarrow> 'g \<Rightarrow> 'g"
  geom_is_empty :: "'g \<Rightarrow> bool"
  geom_within :: "'g \<Rightarrow> 'g \<Rightarrow> bool"

text \<open>\<^verbatim>\<open>frame.geometry = frame.geometry.buffer(d)\<close>, row by row.\<close>

definition buffer_rows :: "('g, 'gr, 'w) library \<Rightarrow> real \<Rightarrow> 'g gdf \<Rightarrow> 'g gdf" where
  "buffer_rows L d frame = frame\<lparr>rows := map (\<lambda>(i, g). (i, buffer L g d)) (rows frame)\<rparr>"

section \<open>Keyword arguments\<close>

definition truthy :: "pyval \<Rightarrow> bool" where
  "truthy v = (case v of PNone \<Rightarrow> False | PBool b \<Rightarrow> b | PNum r \<Rightarrow> r \<noteq> 0
     | PStr s \<Rightarrow> s \<noteq> [] | PDict d \<Rightarrow> d \<noteq> [])"

text \<open>A keyword parameter with a default value.\<close>

definition kwarg :: "kwargs \<Rightarrow> string \<Rightarrow> pyval \<Rightarrow> pyval" where
  "kwarg kw k dflt = (case map_of kw k of None \<Rightarrow> dflt | Some v \<Rightarrow> v)"

text \<open>
  \<^verbatim>\<open>a + b\<close> where a number is expected: booleans count as 0 and 1; for the other
  values either the addition or the library call that receives the sum raises TypeError.
\<close>

definition num_of :: "pyval \<Rightarrow> real option" where
  "num_of v = (case v of PNum r \<Rightarrow> Some r | PBool b \<Rightarrow> Some (if b then 1 else 0)
     | _ \<Rightarrow> None)"

definition py_add :: "pyval \<Rightarrow> pyval \<Rightarrow> error + real" where
  "py_add a b = (case (num_of a, num_of b) of
       (Some x, Some y) \<Rightarrow> Inr (x + y)
     | _ \<Rightarrow> Inl TypeError)"

section \<open>get\_boundary\<close>

text \<open>The query used as a point (the branch taken for a tuple only).\<close>

fun as_point :: "'g query \<Rightarrow> real list" where
  "as_point (QTuple p) = p"
| "as_point _ = []"

definition get_boundary ::
  "('g, 'gr, 'w) library \<Rightarrow> 'g query \<Rightarrow> real \<Rightarrow> real \<Rightarrow> pyval \<Rightarrow> real \<Rightarrow> ('g gdf, 'w) io" where
  "get_boundary L query radius ratio circle rotation =
     and_then (lift (parse_query query)) (\<lambda>qt.
     and_then (if qt = ''coordinates'' then ret (as_point query) else geocode L query) (\<lambda>point.
     and_then (lift (Point L (rev point))) (\<lambda>pt.
     and_then (lift (project_gdf L \<lparr>crs = Some 4326, rows = [(0, pt)]\<rparr>)) (\<lambda>boundary.
     and_then
       (if truthy circle then ret (buffer_rows L radius boundary)
        else (case map_of (rows boundary) 0 of
            None \<Rightarrow> raise KeyError
          | Some g0 \<Rightarrow>
             (case fst (xy L g0) @ snd (xy L g0) of
                [x, y] \<Rightarrow>
                  (let dx = radius * ratio; dy = radius in
                   ret \<lparr>crs = crs boundary,
                        rows = [(0, rotate_geom L
                          (Polygon L [(x - dx, y - dy), (x + dx, y - dy),
                                      (x + dx, y + dy), (x - dx, y + dy)])
                          rotation)]\<rparr>)
              | _ \<Rightarrow> raise ValueError)))
       (\<lambda>boundary. lift (to_crs L boundary 4326))))))"

section \<open>get\_perimeter\<close>

text \<open>The query used as the perimeter (the branch taken for a GeoDataFrame only).\<close>

fun as_gdf :: "'g query \<Rightarrow> 'g gdf" where
  "as_gdf (QGdf g) = g"
| "as_gdf _ = \<lparr>crs = None, rows = []\<rparr>"

text \<open>The branch of get\_perimeter for a radius that is not truthy.\<close>

definition polygon_or_geocoded ::
  "('g, 'gr, 'w) library \<Rightarrow> 'g query \<Rightarrow> pyval \<Rightarrow> kwargs \<Rightarrow> ('g gdf, 'w) io" where
  "polygon_or_geocoded L query by_osmid kwargs =
     and_then (lift (parse_query query)) (\<lambda>qt.
       if qt = ''polygon'' then ret (as_gdf query)
       else geocode_to_gdf L query by_osmid kwargs)"

text \<open>The dilation that ends get\_perimeter.\<close>

definition apply_dilation ::
  "('g, 'gr, 'w) library \<Rightarrow> real option \<Rightarrow> 'g gdf \<Rightarrow> error + 'g gdf" where
  "apply_dilation L dilate perimeter =
     try_then (project_gdf L perimeter) (\<lambda>perimeter.
       to_crs L (case dilate of None \<Rightarrow> perimeter | Some d \<Rightarrow> buffer_rows L d perimeter) 4326)"

definition get_perimeter ::
  "('g, 'gr, 'w) library \<Rightarrow> 'g query \<Rightarrow> real option \<Rightarrow> real \<Rightarrow> pyval \<Rightarrow> pyval
     \<Rightarrow> real option \<Rightarrow> real \<Rightarrow> kwargs \<Rightarrow> ('g gdf, 'w) io" where
  "get_perimeter L query radius ratio by_osmid circle dilate rotation kwargs =
     and_then
       (case radius of
          None \<Rightarrow> polygon_or_geocoded L query by_osmid kwargs
        | Some r \<Rightarrow>
            if r \<noteq> 0 then get_boundary L query r ratio circle rotation
            else polygon_or_geocoded L query by_osmid kwargs)
       (\<lambda>perimeter. lift (apply_dilation L dilate perimeter))"

section \<open>get\_gdf\<close>

text \<open>The perimeter with its tolerance: the region the layer is clipped to.\<close>

definition perimeter_with_tolerance ::
  "('g, 'gr, 'w) library \<Rightarrow> 'g gdf \<Rightarrow> pyval \<Rightarrow> pyval \<Rightarrow> error + 'g" where
  "perimeter_with_tolerance L perimeter dilate perimeter_tolerance =
     try_then (project_gdf L perimeter) (\<lambda>projected.
     try_then (py_add dilate perimeter_tolerance) (\<lambda>d.
     try_then (to_crs L (buffer_rows L d projected) 4326) (\<lambda>series.
       Inr (buffer L (unary_union L (map snd (rows series))) 0))))"

text \<open>
  The clip region of a layer, from its options: \<^verbatim>\<open>dilate\<close> (0 by default, and 0 when
  it is None) and \<^verbatim>\<open>perimeter_tolerance\<close> (0 by default).
\<close>

definition clip_region :: "('g, 'gr, 'w) library \<Rightarrow> 'g gdf \<Rightarrow> kwargs \<Rightarrow> error + 'g" where
  "clip_region L perimeter kw =
     (let dilate = kwarg kw ''dilate'' (PNum 0);
          dilate = (if dilate = PNone then PNum 0 else dilate)
      in perimeter_with_tolerance L perimeter dilate
           (kwarg kw ''perimeter_tolerance'' (PNum 0)))"

text \<open>\<^verbatim>\<open>{tags: True} if type(tags) == str else tags\<close>\<close>

definition tags_arg :: "pyval \<Rightarrow> pyval" where
  "tags_arg tags = (case tags of PStr s \<Rightarrow> PDict [(s, PBool True)] | _ \<Rightarrow> tags)"

text \<open>The value of \<^verbatim>\<open>osmid\<close> handed to the geocoder as its query.\<close>

definition as_query :: "pyval \<Rightarrow> 'g query" where
  "as_query v = (case v of PStr s \<Rightarrow> QStr s | _ \<Rightarrow> QOther v)"

text \<open>
  The layer as the service returns it. The module does not define or import
  get\_hillshade, get\_level\_curves, mask\_elevation or get\_elevation: the two elevation
  layers raise NameError.
\<close>

definition fetch_layer ::
  "('g, 'gr, 'w) library \<Rightarrow> string \<Rightarrow> 'g \<Rightarrow> kwargs \<Rightarrow> ('g gdf, 'w) io" where
  "fetch_layer L layer bbox kw =
     (if layer = ''hillshade'' then raise NameError
      else if layer = ''level_curves'' then raise NameError
      else if layer \<in> set [''streets'', ''railway'', ''waterway''] then
        and_then (graph_from_polygon L bbox (kwarg kw ''custom_filter'' PNone))
          (\<lambda>graph. lift (graph_to_gdfs L graph))
      else if layer = ''coastline'' then
        geometries_from_polygon L bbox (tags_arg (kwarg kw ''tags'' PNone))
      else if kwarg kw ''osmid'' PNone = PNone then
        geometries_from_polygon L bbox (tags_arg (kwarg kw ''tags'' PNone))
      else geocode_to_gdf L (as_query (kwarg kw ''osmid'' PNone)) (PBool True) [])"

text \<open>
  The intersection with the clip region, then the drop of every row whose index label is
  the label of a row with an empty geometry.
\<close>

definition intersect_rows :: "('g, 'gr, 'w) library \<Rightarrow> 'g \<Rightarrow> 'g gdf \<Rightarrow> 'g gdf" where
  "intersect_rows L clip frame =
     frame\<lparr>rows := map (\<lambda>(i, g). (i, intersection L g clip)) (rows frame)\<rparr>"

definition empty_labels :: "('g, 'gr, 'w) library \<Rightarrow> 'g gdf \<Rightarrow> nat list" where
  "empty_labels L frame = map fst (filter (\<lambda>(i, g). geom_is_empty L g) (rows frame))"

definition drop_labels :: "nat list \<Rightarrow> 'g gdf \<Rightarrow> 'g gdf" where
  "drop_labels labels frame =
     frame\<lparr>rows := filter (\<lambda>(i, g). i \<notin> set labels) (rows frame)\<rparr>"

definition clip_rows :: "('g, 'gr, 'w) library \<Rightarrow> 'g \<Rightarrow> 'g gdf \<Rightarrow> 'g gdf" where
  "clip_rows L clip frame =
     (let clipped = intersect_rows L clip frame
      in drop_labels (empty_labels L clipped) clipped)"

definition get_gdf ::
  "('g, 'gr, 'w) library \<Rightarrow> string \<Rightarrow> 'g gdf \<Rightarrow> kwargs \<Rightarrow> ('g gdf, 'w) io" where
  "get_gdf L layer perimeter kw =
     (if map_of kw ''layer'' \<noteq> None \<or> map_of kw ''perimeter'' \<noteq> None then raise TypeError
      else
        and_then (lift (clip_region L perimeter kw)) (\<lambda>clip.
        and_then (lift (box L (bounds L clip))) (\<lambda>bbox.
        and_then (fetch_layer L layer bbox kw) (\<lambda>fetched.
          ret (clip_rows L clip fetched)))))"

section \<open>get\_gdfs\<close>

text \<open>
  The dictionaries of options are objects of the store, the layers dictionary maps each
  layer name to the address of its options. get\_gdfs only reads the layers dictionary
  (\<^verbatim>\<open>in\<close>, \<^verbatim>\<open>[...]\<close>, \<^verbatim>\<open>.items()\<close>), so its entries are passed as a list, in
  insertion order; what it could change through a reference are the dictionaries of
  options, and those are in the store.
\<close>

record 'w state =
  world :: 'w
  heap :: "nat \<Rightarrow> kwargs"
  next_addr :: nat

definition new_dict :: "kwargs \<Rightarrow> (nat, 'w state) io" where
  "new_dict d = (\<lambda>s. (Inr (next_addr s),
     s\<lparr>heap := (heap s)(next_addr s := d), next_addr := Suc (next_addr s)\<rparr>))"

definition read_dict :: "nat \<Rightarrow> (kwargs, 'w state) io" where
  "read_dict a = (\<lambda>s. (Inr (heap s a), s))"

definition deepcopy :: "nat \<Rightarrow> (nat, 'w state) io" where
  "deepcopy a = and_then (read_dict a) new_dict"

definition dict_pop :: "nat \<Rightarrow> string \<Rightarrow> (pyval, 'w state) io" where
  "dict_pop a k = (\<lambda>s. case map_of (heap s a) k of
       None \<Rightarrow> (Inl KeyError, s)
     | Some v \<Rightarrow> (Inr v, s\<lparr>heap := (heap s)(a := filter (\<lambda>kv. fst kv \<noteq> k) (heap s a))\<rparr>))"

definition in_world :: "('a, 'w) io \<Rightarrow> ('a, 'w state) io" where
  "in_world m = (\<lambda>s. case m (world s) of (r, w') \<Rightarrow> (r, s\<lparr>world := w'\<rparr>))"

text \<open>
  The call \<^verbatim>\<open>get_perimeter(query, radius=..., ratio=..., rotation=..., dilate=...,
  **perimeter_kwargs)\<close>: a keyword given twice is a TypeError.
\<close>

definition call_get_perimeter ::
  "('g, 'gr, 'w) library \<Rightarrow> 'g query \<Rightarrow> real option \<Rightarrow> real \<Rightarrow> real \<Rightarrow> real option
     \<Rightarrow> kwargs \<Rightarrow> ('g gdf, 'w) io" where
  "call_get_perimeter L query radius ratio rotation dilate perimeter_kwargs =
     (if \<exists>k \<in> set [''query'', ''radius'', ''ratio'', ''rotation'', ''dilate''].
           map_of perimeter_kwargs k \<noteq> None
      then raise TypeError
      else get_perimeter L query radius ratio
             (kwarg perimeter_kwargs ''by_osmid'' (PBool False))
             (kwarg perimeter_kwargs ''circle'' (PBool False))
             dilate rotation
             (filter (\<lambda>kv. fst kv \<noteq> ''by_osmid'' \<and> fst kv \<noteq> ''circle'') perimeter_kwargs))"

text \<open>
  \<^verbatim>\<open>d[k] = v\<close> on a dictionary in insertion order is \<open>AList.update k v d\<close>: the value
  is replaced where the key stands, or the entry is appended. \<^verbatim>\<open>d.update(e)\<close> sets the
  entries of \<open>e\<close> in their order.
\<close>

definition dict_update :: "('k \<times> 'v) list \<Rightarrow> ('k \<times> 'v) list \<Rightarrow> ('k \<times> 'v) list" where
  "dict_update d e = fold (\<lambda>(k, v). AList.update k v) e d"

text \<open>
  The dictionary comprehension over \<^verbatim>\<open>layers_dict.items()\<close>: first the entries it
  produces, in their order.
\<close>

primrec get_layers ::
  "('g, 'gr, 'w) library \<Rightarrow> 'g gdf \<Rightarrow> (string \<times> nat) list
     \<Rightarrow> ((string \<times> 'g gdf) list, 'w state) io" where
  "get_layers L perimeter [] = ret []"
| "get_layers L perimeter (item # items) =
     (if fst item \<noteq> ''perimeter'' then
        and_then (read_dict (snd item)) (\<lambda>kwargs.
        and_then (in_world (get_gdf L (fst item) perimeter kwargs)) (\<lambda>gdf.
        and_then (get_layers L perimeter items) (\<lambda>gdfs.
          ret ((fst item, gdf) # gdfs))))
      else get_layers L perimeter items)"

definition get_gdfs ::
  "('g, 'gr, 'w) library \<Rightarrow> 'g query \<Rightarrow> (string \<times> nat) list \<Rightarrow> real option \<Rightarrow> real
     \<Rightarrow> real option \<Rightarrow> real \<Rightarrow> ((string \<times> 'g gdf) list, 'w state) io" where
  "get_gdfs L query layers_dict radius ratio dilate rotation =
     and_then (new_dict []) (\<lambda>perimeter_kwargs.
     and_then
       (case map_of layers_dict ''perimeter'' of
          None \<Rightarrow> ret perimeter_kwargs
        | Some a \<Rightarrow>
            and_then (deepcopy a) (\<lambda>perimeter_kwargs.
            and_then (dict_pop perimeter_kwargs ''dilate'') (\<lambda>_. ret perimeter_kwargs)))
       (\<lambda>perimeter_kwargs.
     and_then (read_dict perimeter_kwargs) (\<lambda>kwargs.
     and_then (in_world (call_get_perimeter L query radius ratio rotation dilate kwargs))
       (\<lambda>perimeter.
     and_then (get_layers L perimeter layers_dict) (\<lambda>entries.
       ret (dict_update [(''perimeter'', perimeter)] (dict_update [] entries)))))))"

text \<open>
  The first statements of get\_gdfs, up to the call of get\_perimeter, on their own.
\<close>

definition fetch_perimeter ::
  "('g, 'gr, 'w) library \<Rightarrow> 'g query \<Rightarrow> (string \<times> nat) list \<Rightarrow> real option \<Rightarrow> real
     \<Rightarrow> real option \<Rightarrow> real \<Rightarrow> ('g gdf, 'w state) io" where
  "fetch_perimeter L query layers_dict radius ratio dilate rotation =
     and_then (new_dict []) (\<lambda>perimeter_kwargs.
     and_then
       (case map_of layers_dict ''perimeter'' of
          None \<Rightarrow> ret perimeter_kwargs
        | Some a \<Rightarrow>
            and_then (deepcopy a) (\<lambda>perimeter_kwargs.
            and_then (dict_pop perimeter_kwargs ''dilate'') (\<lambda>_. ret perimeter_kwargs)))
       (\<lambda>perimeter_kwargs.
     and_then (read_dict perimeter_kwargs) (\<lambda>kwargs.
       in_world (call_get_perimeter L query radius ratio rotation dilate kwargs))))"

section \<open>Contracts of the libraries\<close>

text \<open>
  shapely: an intersection that is not empty lies within each of its two arguments
  (an empty geometry is within nothing).
\<close>

definition clips_inside :: "('g, 'gr, 'w) library \<Rightarrow> bool" where
  "clips_inside L =
     (\<forall>g clip. \<not> geom_is_empty L (intersection L g clip)
        \<longrightarrow> geom_within L (intersection L g clip) clip)"

text \<open>geopandas: the frame that to\_crs returns is in the requested system.\<close>

definition to_crs_sets_crs :: "('g, 'gr, 'w) library \<Rightarrow> bool" where
  "to_crs_sets_crs L = (\<forall>frame c frame'. to_crs L frame c = Inr frame' \<longrightarrow> crs frame' = Some c)"

text \<open>
  Two worlds related by \<open>R\<close> answer alike: a call gives the same response in both and
  leaves them related.
\<close>

definition same_responses :: "('w \<Rightarrow> 'w \<Rightarrow> bool) \<Rightarrow> ('a, 'w) io \<Rightarrow> bool" where
  "same_responses R m =
     (\<forall>w1 w2. R w1 w2 \<longrightarrow> fst (m w1) = fst (m w2) \<and> R (snd (m w1)) (snd (m w2)))"

definition answers_alike :: "('w \<Rightarrow> 'w \<Rightarrow> bool) \<Rightarrow> ('g, 'gr, 'w) library \<Rightarrow> bool" where
  "answers_alike R L =
     ((\<forall>q. same_responses R (geocode L q))
      \<and> (\<forall>q b kw. same_responses R (geocode_to_gdf L q b kw))
      \<and> (\<forall>g f. same_responses R (graph_from_polygon L g f))
      \<and> (\<forall>g t. same_responses R (geometries_from_polygon L g t)))"

section \<open>A small instance of the libraries\<close>

text \<open>
  For concrete runs: geometries are axis-parallel rectangles (or empty), distances are
  measured along the axes, projections keep the coordinates, and the world counts the
  requests made to the services.
\<close>

datatype rect = Empty | Rect real real real real

definition mk_rect :: "real \<Rightarrow> real \<Rightarrow> real \<Rightarrow> real \<Rightarrow> rect" where
  "mk_rect x0 y0 x1 y1 = (if x0 \<le> x1 \<and> y0 \<le> y1 then Rect x0 y0 x1 y1 else Empty)"

fun rect_buffer :: "rect \<Rightarrow> real \<Rightarrow> rect" where
  "rect_buffer Empty d = Empty"
| "rect_buffer (Rect x0 y0 x1 y1) d = mk_rect (x0 - d) (y0 - d) (x1 + d) (y1 + d)"

fun rect_intersection :: "rect \<Rightarrow> rect \<Rightarrow> rect" where
  "rect_intersection (Rect a0 b0 a1 b1) (Rect c0 d0 c1 d1) =
     mk_rect (max a0 c0) (max b0 d0) (min a1 c1) (min b1 d1)"
| "rect_intersection _ _ = Empty"

fun rect_hull :: "rect \<Rightarrow> rect \<Rightarrow> rect" where
  "rect_hull (Rect a0 b0 a1 b1) (Rect c0 d0 c1 d1) =
     Rect (min a0 c0) (min b0 d0) (max a1 c1) (max b1 d1)"
| "rect_hull Empty r = r"
| "rect_hull r Empty = r"

fun rect_within :: "rect \<Rightarrow> rect \<Rightarrow> bool" where
  "rect_within (Rect a0 b0 a1 b1) (Rect c0 d0 c1 d1) =
     (c0 \<le> a0 \<and> d0 \<le> b0 \<and> a1 \<le> c1 \<and> b1 \<le> d1)"
| "rect_within _ _ = False"

fun rect_bounds :: "rect \<Rightarrow> real list" where
  "rect_bounds Empty = []"
| "rect_bounds (Rect x0 y0 x1 y1) = [x0, y0, x1, y1]"

fun rect_xy :: "rect \<Rightarrow> real list \<times> real list" where
  "rect_xy Empty = ([], [])"
| "rect_xy (Rect x0 y0 x1 y1) = ([x0], [y0])"

definition rect_box :: "real list \<Rightarrow> error + rect" where
  "rect_box args = (case args of [x0, y0, x1, y1] \<Rightarrow> Inr (mk_rect x0 y0 x1 y1)
     | _ \<Rightarrow> Inl TypeError)"

definition rect_point :: "real list \<Rightarrow> error + rect" where
  "rect_point coords = (case coords of [x, y] \<Rightarrow> Inr (Rect x y x y)
     | _ \<Rightarrow> Inl (LibraryError ''Point''))"

definition rect_polygon :: "(real \<times> real) list \<Rightarrow> rect" where
  "rect_polygon pts = foldr (\<lambda>(x, y). rect_hull (Rect x y x y)) pts Empty"

definition rect_project :: "rect gdf \<Rightarrow> error + rect gdf" where
  "rect_project frame =
     (if crs frame = None \<or> rows frame = [] then Inl ValueError
      else Inr (frame\<lparr>crs := Some 3857\<rparr>))"

definition rect_to_crs :: "rect gdf \<Rightarrow> nat \<Rightarrow> error + rect gdf" where
  "rect_to_crs frame c =
     (if crs frame = None then Inl ValueError else Inr (frame\<lparr>crs := Some c\<rparr>))"

text \<open>The map: what the services know.\<close>

definition rect_found :: "rect \<Rightarrow> (nat \<times> rect) list \<Rightarrow> (rect gdf, nat) io" where
  "rect_found bbox features =
     (\<lambda>n. case filter (\<lambda>(i, g). rect_intersection g bbox \<noteq> Empty) features of
        [] \<Rightarrow> (Inl (LibraryError ''EmptyOverpassResponse''), Suc n)
      | found \<Rightarrow> (Inr \<lparr>crs = Some 4326, rows = found\<rparr>, Suc n))"

definition rect_geometries :: "rect \<Rightarrow> pyval \<Rightarrow> (rect gdf, nat) io" where
  "rect_geometries bbox tags =
     (case tags of
        PDict (tag # tags') \<Rightarrow> rect_found bbox [(1, Rect 8 8 20 20), (2, Rect 2 2 4 4)]
      | _ \<Rightarrow> raise (LibraryError ''tags''))"

definition rect_geocode :: "rect query \<Rightarrow> (real list, nat) io" where
  "rect_geocode q =
     (\<lambda>n. case q of
        QStr s \<Rightarrow> if s = ''Atlantis'' then (Inl (LibraryError ''no results''), Suc n)
                  else (Inr [10, 20], Suc n)
      | _ \<Rightarrow> (Inl TypeError, n))"

definition rect_geocode_to_gdf :: "rect query \<Rightarrow> pyval \<Rightarrow> kwargs \<Rightarrow> (rect gdf, nat) io" where
  "rect_geocode_to_gdf q by_osmid kw =
     (\<lambda>n. case q of
        QStr s \<Rightarrow>
          if s = ''Atlantis'' then (Inl (LibraryError ''no results''), Suc n)
          else if truthy by_osmid
            then (Inr \<lparr>crs = Some 4326, rows = [(0, Rect 500 500 510 510)]\<rparr>, Suc n)
            else (Inr \<lparr>crs = Some 4326, rows = [(0, Rect 0 0 100 100)]\<rparr>, Suc n)
      | _ \<Rightarrow> (Inl TypeError, n))"

definition rect_library :: "(rect, rect gdf, nat) library" where
  "rect_library = \<lparr>
     geocode = rect_geocode,
     geocode_to_gdf = rect_geocode_to_gdf,
     graph_from_polygon = (\<lambda>bbox custom_filter. rect_found bbox [(7, Rect 0 5 30 5)]),
     geometries_from_polygon = rect_geometries,
     graph_to_gdfs = Inr,
     project_gdf = rect_project,
     to_crs = rect_to_crs,
     Point = rect_point,
     Polygon = rect_polygon,
     rotate_geom = (\<lambda>g angle. g),
     box = rect_box,
     bounds = rect_bounds,
     xy = rect_xy,
     buffer = rect_buffer,
     unary_union = (\<lambda>gs. foldr rect_hull gs Empty),
     intersection = rect_intersection,
     geom_is_empty = (\<lambda>g. g = Empty),
     geom_within = rect_within \<rparr>"




text \<open>A store with a dictionary of options at each of the addresses 0, 1 and 2.\<close>

definition store0 :: "nat state" where
  "store0 = \<lparr>world = 0,
     heap = (\<lambda>a. if a = 0 then [(''tags'', PStr ''building''), (''perimeter_tolerance'', PNum 5)]
                 else if a = 1 then [(''tags'', PStr ''highway''), (''circle'', PBool False)]
                 else if a = 2 then [(''dilate'', PNum 3), (''circle'', PBool True)]
                 else []),
     next_addr = 3\<rparr>"

definition square10 :: "rect gdf" where
  "square10 = \<lparr>crs = Some 4326, rows = [(0, Rect 0 0 10 10)]\<rparr>"

section \<open>Unfolding and sequencing\<close>

lemmas io_defs = ret_def raise_def lift_def and_then_def try_then_def
lemmas py_defs = kwarg_def truthy_def num_of_def py_add_def tags_arg_def as_query_def
lemmas frame_defs = buffer_rows_def intersect_rows_def empty_labels_def drop_labels_def
  clip_rows_def
lemmas fetch_defs = get_gdf_def clip_region_def perimeter_with_tolerance_def fetch_layer_def
lemmas perimeter_defs = get_perimeter_def get_boundary_def polygon_or_geocoded_def
  apply_dilation_def call_get_perimeter_def
lemmas store_defs = new_dict_def read_dict_def deepcopy_def dict_pop_def in_world_def
  dict_update_def store0_def
lemmas rect_defs = rect_library_def rect_found_def rect_geometries_def rect_geocode_def
  rect_geocode_to_gdf_def
  rect_project_def rect_to_crs_def rect_box_def rect_point_def rect_polygon_def mk_rect_def

lemma and_then_Inr:
  "and_then m f w = (Inr y, w') \<longleftrightarrow> (\<exists>x w1. m w = (Inr x, w1) \<and> f x w1 = (Inr y, w'))"
  by (auto simp: and_then_def split: prod.splits sum.splits)

lemma lift_Inr: "lift r w = (Inr y, w') \<longleftrightarrow> r = Inr y \<and> w' = w"
  by (auto simp: lift_def)

lemma ret_Inr: "ret x w = (Inr y, w') \<longleftrightarrow> y = x \<and> w' = w"
  by (auto simp: ret_def)

lemma raise_Inr: "raise e w \<noteq> (Inr y, w')"
  by (simp add: raise_def)

lemma try_then_Inr: "try_then r f = Inr y \<longleftrightarrow> (\<exists>x. r = Inr x \<and> f x = Inr y)"
  by (auto simp: try_then_def split: sum.splits)

section \<open>The rectangle instance keeps the contracts\<close>

lemma rect_clips_inside: "clips_inside rect_library"
  unfolding clips_inside_def
proof (intro allI impI)
  fix g clip :: rect
  assume "\<not> geom_is_empty rect_library (intersection rect_library g clip)"
  then show "geom_within rect_library (intersection rect_library g clip) clip"
    by (cases g; cases clip) (auto simp: rect_library_def mk_rect_def split: if_splits)
qed

lemma rect_to_crs_sets_crs: "to_crs_sets_crs rect_library"
  by (auto simp: to_crs_sets_crs_def rect_library_def rect_to_crs_def split: if_splits)

text \<open>Its answers do not depend on the number of requests made before.\<close>

lemma rect_answers_alike: "answers_alike (\<lambda>m n. True) rect_library"
  by (auto simp: answers_alike_def same_responses_def rect_defs raise_def
      split: query.splits list.splits pyval.splits)

section \<open>Clipping\<close>

lemma clip_rows_not_empty:
  "(i, g) \<in> set (rows (clip_rows L clip frame)) \<Longrightarrow> \<not> geom_is_empty L g"
  by (force simp: clip_rows_def drop_labels_def empty_labels_def Let_def)

lemma clip_rows_intersection:
  "(i, g) \<in> set (rows (clip_rows L clip frame))
   \<Longrightarrow> \<exists>g0. (i, g0) \<in> set (rows frame) \<and> g = intersection L g0 clip"
  by (auto simp: clip_rows_def drop_labels_def intersect_rows_def Let_def)

lemma get_gdf_Inr:
  "get_gdf L layer perimeter kw w = (Inr gdf, w') \<Longrightarrow>
     \<exists>clip bbox fetched. clip_region L perimeter kw = Inr clip
       \<and> box L (bounds L clip) = Inr bbox
       \<and> fetch_layer L layer bbox kw w = (Inr fetched, w')
       \<and> gdf = clip_rows L clip fetched"
  by (auto simp: get_gdf_def and_then_Inr lift_Inr ret_Inr raise_Inr split: if_splits)

section \<open>Dictionaries\<close>

lemma map_of_dict_update: "map_of (dict_update d e) = map_of d ++ map_of (rev e)"
proof (induction e arbitrary: d)
  case Nil
  then show ?case by (simp add: dict_update_def)
next
  case (Cons x e)
  obtain k v where x: "x = (k, v)" by (cases x)
  have "dict_update d (x # e) = dict_update (AList.update k v d) e"
    by (simp add: dict_update_def x)
  then have "map_of (dict_update d (x # e)) = (map_of d)(k \<mapsto> v) ++ map_of (rev e)"
    by (simp add: Cons.IH update_conv' del: fun_upd_apply)
  also have "\<dots> = map_of d ++ map_of (rev (x # e))"
    by (simp add: x map_add_upd_left)
  finally show ?case .
qed

lemma keys_dict_update: "fst ` set (dict_update d e) = fst ` set d \<union> fst ` set e"
proof -
  have "dom (map_of (dict_update d e)) = dom (map_of d) \<union> dom (map_of (rev e))"
    by (auto simp: map_of_dict_update)
  then show ?thesis by (simp add: dom_map_of_conv_image_fst)
qed

lemma dict_update_append:
  "distinct (map fst e) \<Longrightarrow> fst ` set d \<inter> fst ` set e = {} \<Longrightarrow> dict_update d e = d @ e"
proof (induction e arbitrary: d)
  case Nil
  then show ?case by (simp add: dict_update_def)
next
  case (Cons x e)
  obtain k v where x: "x = (k, v)" by (cases x)
  from Cons.prems have k: "k \<notin> fst ` set d" by (auto simp: x)
  have step: "dict_update d (x # e) = dict_update (AList.update k v d) e"
    by (simp add: dict_update_def x)
  from k have upd: "AList.update k v d = d @ [(k, v)]"
    by (induction d) auto
  from Cons.prems have "distinct (map fst e)" and "fst ` set (d @ [(k, v)]) \<inter> fst ` set e = {}"
    by (auto simp: x)
  then have "dict_update (d @ [(k, v)]) e = (d @ [(k, v)]) @ e"
    by (rule Cons.IH)
  with step upd show ?case by (simp add: x)
qed

section \<open>The store\<close>

lemma in_world_frame:
  "in_world m s = (r, s') \<Longrightarrow>
     m (world s) = (r, world s') \<and> heap s' = heap s \<and> next_addr s' = next_addr s"
  by (auto simp: in_world_def split: prod.splits)

lemma get_layers_frame:
  "get_layers L p items s = (r, s') \<Longrightarrow> heap s' = heap s \<and> next_addr s' = next_addr s"
proof (induction items arbitrary: s r s')
  case Nil
  then show ?case by (simp add: ret_def)
next
  case (Cons item items)
  show ?case
  proof (cases "fst item \<noteq> ''perimeter''")
    case False
    with Cons show ?thesis by simp
  next
    case True
    obtain r1 s1 where 1: "in_world (get_gdf L (fst item) p (heap s (snd item))) s = (r1, s1)"
      by force
    then have f1: "heap s1 = heap s \<and> next_addr s1 = next_addr s"
      by (auto dest: in_world_frame)
    show ?thesis
    proof (cases r1)
      case (Inl e)
      with Cons.prems True 1 f1 show ?thesis
        by (auto simp: and_then_def read_dict_def)
    next
      case (Inr g)
      obtain r2 s2 where 2: "get_layers L p items s1 = (r2, s2)" by force
      then have "heap s2 = heap s1 \<and> next_addr s2 = next_addr s1"
        by (rule Cons.IH)
      with Cons.prems True 1 2 f1 Inr show ?thesis
        by (auto simp: and_then_def read_dict_def ret_def split: sum.splits)
    qed
  qed
qed

lemma get_layers_Inr:
  "get_layers L p items s = (Inr entries, s') \<Longrightarrow>
     list_all2 (\<lambda>item entry. fst entry = fst item
         \<and> (\<exists>w w'. get_gdf L (fst item) p (heap s (snd item)) w = (Inr (snd entry), w')))
       (filter (\<lambda>item. fst item \<noteq> ''perimeter'') items) entries"
proof (induction items arbitrary: s entries s')
  case Nil
  then show ?case by (simp add: ret_def)
next
  case (Cons item items)
  show ?case
  proof (cases "fst item \<noteq> ''perimeter''")
    case False
    with Cons show ?thesis by simp
  next
    case True
    with Cons.prems obtain g s1 rest where
      1: "in_world (get_gdf L (fst item) p (heap s (snd item))) s = (Inr g, s1)"
      and 2: "get_layers L p items s1 = (Inr rest, s')"
      and e: "entries = (fst item, g) # rest"
      by (auto simp: and_then_Inr ret_Inr read_dict_def)
    from 1 have h: "heap s1 = heap s" and g: "get_gdf L (fst item) p (heap s (snd item)) (world s) = (Inr g, world s1)"
      by (auto dest: in_world_frame)
    from Cons.IH [OF 2] h g e True show ?thesis
      by auto
  qed
qed

section \<open>Runs of get\_gdfs\<close>

text \<open>The statements of get\_gdfs before the perimeter is fetched.\<close>

lemma perimeter_kwargs_frame:
  assumes "and_then (new_dict [])
       (\<lambda>c0. case map_of ld ''perimeter'' of
          None \<Rightarrow> ret c0
        | Some a \<Rightarrow> and_then (deepcopy a) (\<lambda>c. and_then (dict_pop c ''dilate'') (\<lambda>_. ret c))) s
     = (r, s1)"
  shows "world s1 = world s \<and> next_addr s \<le> next_addr s1
     \<and> (\<forall>a < next_addr s. heap s1 a = heap s a)"
  using assms
  by (auto simp: and_then_def new_dict_def deepcopy_def read_dict_def dict_pop_def ret_def
      split: option.splits)

lemma get_gdfs_split:
  "get_gdfs L q ld r ra d rot =
     and_then
       (and_then (new_dict [])
         (\<lambda>c0. case map_of ld ''perimeter'' of
            None \<Rightarrow> ret c0
          | Some a \<Rightarrow> and_then (deepcopy a) (\<lambda>c. and_then (dict_pop c ''dilate'') (\<lambda>_. ret c))))
       (\<lambda>c. and_then (read_dict c) (\<lambda>kw.
         and_then (in_world (call_get_perimeter L q r ra rot d kw)) (\<lambda>p.
         and_then (get_layers L p ld) (\<lambda>entries.
           ret (dict_update [(''perimeter'', p)] (dict_update [] entries))))))"
  by (auto simp: get_gdfs_def and_then_def fun_eq_iff split: prod.splits sum.splits)

lemma get_gdfs_frame:
  assumes "get_gdfs L q ld r ra d rot s = (res, s')"
  shows "next_addr s \<le> next_addr s' \<and> (\<forall>a < next_addr s. heap s' a = heap s a)"
proof -
  let ?pre = "and_then (new_dict [])
         (\<lambda>c0. case map_of ld ''perimeter'' of
            None \<Rightarrow> ret c0
          | Some a \<Rightarrow> and_then (deepcopy a) (\<lambda>c. and_then (dict_pop c ''dilate'') (\<lambda>_. ret c)))"
  obtain r1 s1 where pre: "?pre s = (r1, s1)" by force
  then have f1: "next_addr s \<le> next_addr s1 \<and> (\<forall>a < next_addr s. heap s1 a = heap s a)"
    by (auto dest: perimeter_kwargs_frame)
  show ?thesis
  proof (cases r1)
    case (Inl e)
    with assms pre f1 show ?thesis
      by (simp add: get_gdfs_split and_then_def)
  next
    case (Inr c)
    obtain r2 s2 where 2: "in_world (call_get_perimeter L q r ra rot d (heap s1 c)) s1 = (r2, s2)"
      by force
    then have f2: "heap s2 = heap s1 \<and> next_addr s2 = next_addr s1"
      by (auto dest: in_world_frame)
    show ?thesis
    proof (cases r2)
      case (Inl e)
      with assms pre \<open>r1 = Inr c\<close> 2 f1 f2 show ?thesis
        by (simp add: get_gdfs_split and_then_def read_dict_def)
    next
      case (Inr p)
      obtain r3 s3 where 3: "get_layers L p ld s2 = (r3, s3)" by force
      then have f3: "heap s3 = heap s2 \<and> next_addr s3 = next_addr s2"
        by (rule get_layers_frame)
      from assms pre \<open>r1 = Inr c\<close> 2 Inr 3 have "s' = s3"
        by (auto simp: get_gdfs_split and_then_def read_dict_def ret_def split: sum.splits)
      with f1 f2 f3 show ?thesis by simp
    qed
  qed
qed

lemma get_gdfs_Inr:
  assumes "get_gdfs L q ld r ra d rot s = (Inr gdfs, s')"
  shows "\<exists>p entries kw s2.
     call_get_perimeter L q r ra rot d kw (world s) = (Inr p, world s2)
     \<and> get_layers L p ld s2 = (Inr entries, s')
     \<and> (\<forall>a < next_addr s. heap s2 a = heap s a)
     \<and> gdfs = dict_update [(''perimeter'', p)] (dict_update [] entries)"
proof -
  let ?pre = "and_then (new_dict [])
         (\<lambda>c0. case map_of ld ''perimeter'' of
            None \<Rightarrow> ret c0
          | Some a \<Rightarrow> and_then (deepcopy a) (\<lambda>c. and_then (dict_pop c ''dilate'') (\<lambda>_. ret c)))"
  from assms obtain c s1 p s2 entries where
    pre: "?pre s = (Inr c, s1)"
    and per: "in_world (call_get_perimeter L q r ra rot d (heap s1 c)) s1 = (Inr p, s2)"
    and lay: "get_layers L p ld s2 = (Inr entries, s')"
    and out: "gdfs = dict_update [(''perimeter'', p)] (dict_update [] entries)"
    unfolding get_gdfs_split and_then_Inr [of ?pre] 
    by (auto simp: and_then_Inr ret_Inr read_dict_def)
  from pre have f1: "world s1 = world s \<and> next_addr s \<le> next_addr s1
     \<and> (\<forall>a < next_addr s. heap s1 a = heap s a)"
    by (rule perimeter_kwargs_frame)
  from per have "call_get_perimeter L q r ra rot d (heap s1 c) (world s1) = (Inr p, world s2)"
    and "heap s2 = heap s1"
    by (auto dest: in_world_frame)
  with f1 have "call_get_perimeter L q r ra rot d (heap s1 c) (world s) = (Inr p, world s2)"
    and "\<forall>a < next_addr s. heap s2 a = heap s a"
    by simp_all
  with lay out show ?thesis by blast
qed

lemma list_all2_pick:
  "list_all2 P xs ys \<Longrightarrow> x \<in> set xs \<Longrightarrow> \<exists>y \<in> set ys. P x y"
  by (induction rule: list_all2_induct) auto

lemma get_layers_names:
  assumes "get_layers L p items s = (Inr entries, s')"
  shows "map fst entries = filter (\<lambda>k. k \<noteq> ''perimeter'') (map fst items)"
proof -
  from assms have "list_all2 (\<lambda>item entry. fst entry = fst item
         \<and> (\<exists>w w'. get_gdf L (fst item) p (heap s (snd item)) w = (Inr (snd entry), w')))
       (filter (\<lambda>item. fst item \<noteq> ''perimeter'') items) entries"
    by (rule get_layers_Inr)
  then have "list_all2 (\<lambda>item entry. fst item = fst entry)
       (filter (\<lambda>item. fst item \<noteq> ''perimeter'') items) entries"
    by (rule list_all2_mono) auto
  then have "map fst entries = map fst (filter (\<lambda>item. fst item \<noteq> ''perimeter'') items)"
    by (simp add: list_all2_conv_all_nth list_eq_iff_nth_eq)
  then show ?thesis
    by (simp add: filter_map comp_def)
qed

lemma apply_dilation_Inr:
  "apply_dilation L dilate frame = Inr p \<Longrightarrow> \<exists>frame'. to_crs L frame' 4326 = Inr p"
  by (auto simp: apply_dilation_def try_then_Inr)

lemma get_perimeter_Inr:
  "get_perimeter L query radius ratio by_osmid circle dilate rotation kwargs w = (Inr p, w')
   \<Longrightarrow> \<exists>frame. to_crs L frame 4326 = Inr p"
  by (auto simp: get_perimeter_def and_then_Inr lift_Inr dest: apply_dilation_Inr)

lemma call_get_perimeter_Inr:
  "call_get_perimeter L query radius ratio rotation dilate kw w = (Inr p, w')
   \<Longrightarrow> \<exists>frame. to_crs L frame 4326 = Inr p"
  by (auto simp: call_get_perimeter_def raise_Inr dest: get_perimeter_Inr split: if_splits)

section \<open>Failures\<close>



lemma get_gdfs_phases:
  "get_gdfs L q ld r ra d rot =
     and_then (fetch_perimeter L q ld r ra d rot) (\<lambda>p.
     and_then (get_layers L p ld) (\<lambda>entries.
       ret (dict_update [(''perimeter'', p)] (dict_update [] entries))))"
  by (auto simp: get_gdfs_def fetch_perimeter_def and_then_def fun_eq_iff
      split: prod.splits sum.splits)










section \<open>Runs in worlds that answer alike\<close>

lemma same_ret: "same_responses R (ret x)"
  by (simp add: same_responses_def ret_def)

lemma same_raise: "same_responses R (raise e)"
  by (simp add: same_responses_def raise_def)

lemma same_lift: "same_responses R (lift r)"
  by (simp add: same_responses_def lift_def)

lemma same_and_then:
  assumes m: "same_responses R m" and f: "\<And>x. same_responses R (f x)"
  shows "same_responses R (and_then m f)"
  unfolding same_responses_def
proof (intro allI impI)
  fix w1 w2
  assume r: "R w1 w2"
  with m have eq: "fst (m w1) = fst (m w2)" and r': "R (snd (m w1)) (snd (m w2))"
    by (auto simp: same_responses_def)
  show "fst (and_then m f w1) = fst (and_then m f w2)
      \<and> R (snd (and_then m f w1)) (snd (and_then m f w2))"
  proof (cases "fst (m w1)")
    case (Inl e)
    with eq r' show ?thesis
      by (auto simp: and_then_def split: prod.splits sum.splits)
  next
    case (Inr x)
    from f r' have "fst (f x (snd (m w1))) = fst (f x (snd (m w2)))
        \<and> R (snd (f x (snd (m w1)))) (snd (f x (snd (m w2))))"
      by (auto simp: same_responses_def)
    with Inr eq show ?thesis
      by (auto simp: and_then_def split: prod.splits sum.splits)
  qed
qed

lemma same_get_boundary:
  "answers_alike R L \<Longrightarrow> same_responses R (get_boundary L query radius ratio circle rotation)"
  unfolding get_boundary_def
  by (intro same_and_then same_lift)
    (auto simp: answers_alike_def Let_def same_ret same_raise same_lift
      split: option.splits list.splits)

lemma same_polygon_or_geocoded:
  "answers_alike R L \<Longrightarrow> same_responses R (polygon_or_geocoded L query by_osmid kwargs)"
  unfolding polygon_or_geocoded_def
  by (intro same_and_then same_lift) (auto simp: answers_alike_def same_ret)

lemma same_get_perimeter:
  "answers_alike R L \<Longrightarrow>
   same_responses R (get_perimeter L query radius ratio by_osmid circle dilate rotation kwargs)"
  unfolding get_perimeter_def
  by (intro same_and_then same_lift)
    (auto simp: same_get_boundary same_polygon_or_geocoded split: option.splits)

lemma same_call_get_perimeter:
  "answers_alike R L \<Longrightarrow>
   same_responses R (call_get_perimeter L query radius ratio rotation dilate kw)"
  by (simp add: call_get_perimeter_def same_raise same_get_perimeter)

lemma same_fetch_layer:
  "answers_alike R L \<Longrightarrow> same_responses R (fetch_layer L layer bbox kw)"
  unfolding fetch_layer_def
  by (auto simp: answers_alike_def same_raise same_lift intro!: same_and_then)

lemma same_get_gdf:
  "answers_alike R L \<Longrightarrow> same_responses R (get_gdf L layer perimeter kw)"
  unfolding get_gdf_def
  by (auto simp: same_raise same_lift same_ret same_fetch_layer intro!: same_and_then)

lemma map_of_alike:
  "list_all2 (\<lambda>i1 i2. fst i1 = fst i2 \<and> Q (snd i1) (snd i2)) xs ys
   \<Longrightarrow> rel_option Q (map_of xs k) (map_of ys k)"
  by (induction rule: list_all2_induct) auto

lemma in_world_fst: "fst (in_world m s) = fst (m (world s))"
  by (simp add: in_world_def split: prod.splits)

lemma fst_and_then:
  "fst (and_then m f w) = (case fst (m w) of Inl e \<Rightarrow> Inl e | Inr x \<Rightarrow> fst (f x (snd (m w))))"
  by (simp add: and_then_def split: prod.splits sum.splits)

lemma in_world_snd: "snd (in_world m s) = s\<lparr>world := snd (m (world s))\<rparr>"
  by (simp add: in_world_def split: prod.splits)

lemma fetch_perimeter_frame:
  assumes "fetch_perimeter L q ld r ra d rot s = (res, s')"
  shows "\<forall>a < next_addr s. heap s' a = heap s a"
  using assms
  by (auto simp: fetch_perimeter_def and_then_def new_dict_def deepcopy_def read_dict_def
      dict_pop_def ret_def in_world_def split: option.splits prod.splits)

lemma same_responsesD:
  assumes "same_responses R m" and "R w1 w2" and "m w1 = (r1, t1)" and "m w2 = (r2, t2)"
  shows "r1 = r2 \<and> R t1 t2"
  using assms unfolding same_responses_def by (metis fst_conv snd_conv)

lemma fetch_perimeter_alike:
  assumes L: "answers_alike R L" and R: "R (world s1) (world s2)"
    and p: "rel_option (\<lambda>a1 a2. a1 < next_addr s1 \<and> a2 < next_addr s2 \<and> heap s1 a1 = heap s2 a2)
       (map_of ld1 ''perimeter'') (map_of ld2 ''perimeter'')"
  shows "fst (fetch_perimeter L q ld1 r ra d rot s1) = fst (fetch_perimeter L q ld2 r ra d rot s2)
     \<and> R (world (snd (fetch_perimeter L q ld1 r ra d rot s1)))
         (world (snd (fetch_perimeter L q ld2 r ra d rot s2)))"
proof -
  have call: "r1 = r2 \<and> R t1 t2"
    if "call_get_perimeter L q r ra rot d kw (world s1) = (r1, t1)"
      and "call_get_perimeter L q r ra rot d kw (world s2) = (r2, t2)" for kw r1 t1 r2 t2
    using same_call_get_perimeter [OF L] R that by (rule same_responsesD)
  show ?thesis
  proof (cases "map_of ld1 ''perimeter''")
    case None
    with p have 2: "map_of ld2 ''perimeter'' = None"
      by (cases "map_of ld2 ''perimeter''") auto
    obtain r1 t1 where c1: "call_get_perimeter L q r ra rot d [] (world s1) = (r1, t1)"
      by force
    obtain r2 t2 where c2: "call_get_perimeter L q r ra rot d [] (world s2) = (r2, t2)"
      by force
    from None 2 c1 c2 call [OF c1 c2] show ?thesis
      by (simp add: fetch_perimeter_def and_then_def new_dict_def ret_def read_dict_def
          in_world_def)
  next
    case (Some a1)
    with p obtain a2 where 2: "map_of ld2 ''perimeter'' = Some a2"
      and a: "a1 < next_addr s1" "a2 < next_addr s2" and h: "heap s1 a1 = heap s2 a2"
      by (cases "map_of ld2 ''perimeter''") auto
    show ?thesis
    proof (cases "map_of (heap s2 a2) ''dilate''")
      case None
      with Some 2 a h R show ?thesis
        by (simp add: fetch_perimeter_def and_then_def new_dict_def deepcopy_def read_dict_def
            dict_pop_def)
    next
      case (Some v)
      let ?kw = "filter (\<lambda>kv. fst kv \<noteq> ''dilate'') (heap s2 a2)"
      obtain r1 t1 where c1: "call_get_perimeter L q r ra rot d ?kw (world s1) = (r1, t1)"
        by force
      obtain r2 t2 where c2: "call_get_perimeter L q r ra rot d ?kw (world s2) = (r2, t2)"
        by force
      from \<open>map_of ld1 ''perimeter'' = Some a1\<close> 2 a h Some c1 c2 call [OF c1 c2]
      show ?thesis
        by (simp add: fetch_perimeter_def and_then_def new_dict_def deepcopy_def read_dict_def
            dict_pop_def ret_def in_world_def)
    qed
  qed
qed

lemma get_layers_alike:
  assumes L: "answers_alike R L"
    and items: "list_all2 (\<lambda>i1 i2. fst i1 = fst i2 \<and> h1 (snd i1) = h2 (snd i2)) items1 items2"
  shows "R (world s1) (world s2) \<Longrightarrow> heap s1 = h1 \<Longrightarrow> heap s2 = h2
     \<Longrightarrow> fst (get_layers L p items1 s1) = fst (get_layers L p items2 s2)"
  using items
proof (induction arbitrary: s1 s2 rule: list_all2_induct)
  case Nil
  then show ?case by (simp add: ret_def)
next
  case (Cons i1 items1 i2 items2)
  show ?case
  proof (cases "fst i1 = ''perimeter''")
    case True
    with Cons show ?thesis by simp
  next
    case False
    let ?m = "get_gdf L (fst i1) p (h1 (snd i1))"
    from Cons.hyps(1) have n: "fst i2 = fst i1" and k: "h2 (snd i2) = h1 (snd i1)"
      by simp_all
    obtain r1 t1 where m1: "?m (world s1) = (r1, t1)" by force
    obtain r2 t2 where m2: "?m (world s2) = (r2, t2)" by force
    from same_get_gdf [OF L] Cons.prems(1) m1 m2 have eq: "r1 = r2" and R': "R t1 t2"
      by (auto dest: same_responsesD)
    show ?thesis
    proof (cases r2)
      case (Inl e)
      with eq False n k Cons.prems m1 m2 show ?thesis
        by (simp add: and_then_def read_dict_def in_world_def)
    next
      case (Inr g)
      from R' Cons.prems
      have "fst (get_layers L p items1 (s1\<lparr>world := t1\<rparr>))
          = fst (get_layers L p items2 (s2\<lparr>world := t2\<rparr>))"
        by (intro Cons.IH) simp_all
      with Inr eq False n k Cons.prems m1 m2 show ?thesis
        by (simp add: fst_and_then read_dict_def in_world_fst in_world_snd ret_def
            split: sum.splits)
    qed
  qed
qed

section \<open>Results\<close>

text \<open>
  C1, as stated, fails. With the option \<^verbatim>\<open>perimeter_tolerance = 5\<close> (the dictionary at
  address 0 of \<open>store0\<close>) and the square from (0, 0) to (10, 10) as the query, the layer
  \<^verbatim>\<open>building\<close> that get\_gdfs returns has a row with the rectangle from (8, 8) to
  (15, 15), which is not within the perimeter that get\_gdfs returns.
\<close>

theorem layer_outside_perimeter:
  "fst (get_gdfs rect_library (QGdf square10) [(''building'', 0)] None 1 None 0 store0)
     = Inr [(''perimeter'', \<lparr>crs = Some 4326, rows = [(0, Rect 0 0 10 10)]\<rparr>),
            (''building'',
               \<lparr>crs = Some 4326, rows = [(1, Rect 8 8 15 15), (2, Rect 2 2 4 4)]\<rparr>)]
   \<and> \<not> geom_within rect_library (Rect 8 8 15 15) (Rect 0 0 10 10)"
  by (simp add: get_gdfs_def store_defs perimeter_defs fetch_defs io_defs rect_defs py_defs
      frame_defs square10_def del: set_filter)

text \<open>
  C1, amended. When the intersections of the library lie within the clip geometry, every
  geometry of the frame that get\_gdf returns lies within the clip region of the layer:
  the union of the perimeter's geometries, buffered by \<^verbatim>\<open>dilate + perimeter_tolerance\<close>.
\<close>

theorem get_gdf_within_clip_region:
  assumes "clips_inside L" and "get_gdf L layer perimeter kw w = (Inr gdf, w')"
  shows "\<exists>clip. clip_region L perimeter kw = Inr clip
           \<and> (\<forall>(i, g) \<in> set (rows gdf). geom_within L g clip)"
proof -
  from assms(2) obtain clip fetched where c: "clip_region L perimeter kw = Inr clip"
    and g: "gdf = clip_rows L clip fetched"
    by (blast dest: get_gdf_Inr)
  have "geom_within L x clip" if "(i, x) \<in> set (rows gdf)" for i x
  proof -
    from that g have ne: "\<not> geom_is_empty L x"
      by (auto dest: clip_rows_not_empty)
    from that g obtain g0 where "x = intersection L g0 clip"
      by (auto dest: clip_rows_intersection)
    with ne assms(1) show ?thesis
      by (simp add: clips_inside_def)
  qed
  with c show ?thesis by auto
qed

theorem get_gdf_within_clip_region_witness:
  "clips_inside rect_library
   \<and> get_gdf rect_library ''building'' square10 [(''tags'', PStr ''building''), (''perimeter_tolerance'', PNum 5)] 0
       = (Inr \<lparr>crs = Some 4326, rows = [(1, Rect 8 8 15 15), (2, Rect 2 2 4 4)]\<rparr>, 1)
   \<and> clip_region rect_library square10 [(''tags'', PStr ''building''), (''perimeter_tolerance'', PNum 5)]
       = Inr (Rect (- 5) (- 5) 15 15)
   \<and> geom_within rect_library (Rect 8 8 15 15) (Rect (- 5) (- 5) 15 15)
   \<and> geom_within rect_library (Rect 2 2 4 4) (Rect (- 5) (- 5) 15 15)"
proof -
  have run: "get_gdf rect_library ''building'' square10 [(''tags'', PStr ''building''), (''perimeter_tolerance'', PNum 5)] 0
       = (Inr \<lparr>crs = Some 4326, rows = [(1, Rect 8 8 15 15), (2, Rect 2 2 4 4)]\<rparr>, 1)"
    by (simp add: fetch_defs io_defs rect_defs py_defs frame_defs square10_def
        del: set_filter)
  have clip: "clip_region rect_library square10 [(''tags'', PStr ''building''), (''perimeter_tolerance'', PNum 5)]
       = Inr (Rect (- 5) (- 5) 15 15)"
    by (simp add: fetch_defs io_defs rect_defs py_defs frame_defs square10_def)
  from get_gdf_within_clip_region [OF rect_clips_inside run] clip
  show ?thesis using rect_clips_inside run by auto
qed

text \<open>
  C2. When get\_gdfs returns, the keys of the dictionary it returns are the layer names of
  the layers dictionary together with \<^verbatim>\<open>perimeter\<close>, and the value at each other layer
  name is the frame that get\_gdf returns for that layer, the perimeter and the options of
  that layer. (The keys of a dictionary are distinct, and its values are objects that
  exist when get\_gdfs is called.)
\<close>

theorem get_gdfs_keys_and_values:
  assumes run: "get_gdfs L query layers_dict radius ratio dilate rotation s = (Inr gdfs, s')"
    and keys: "distinct (map fst layers_dict)"
    and addrs: "\<forall>(layer, a) \<in> set layers_dict. a < next_addr s"
  shows "fst ` set gdfs = insert ''perimeter'' (fst ` set layers_dict)
     \<and> (\<exists>perimeter. map_of gdfs ''perimeter'' = Some perimeter
          \<and> (\<forall>(layer, a) \<in> set layers_dict. layer \<noteq> ''perimeter'' \<longrightarrow>
                (\<exists>gdf w w'. map_of gdfs layer = Some gdf
                   \<and> get_gdf L layer perimeter (heap s a) w = (Inr gdf, w'))))"
proof -
  let ?others = "filter (\<lambda>item. fst item \<noteq> ''perimeter'') layers_dict"
  from run obtain p entries s2 where
    lay: "get_layers L p layers_dict s2 = (Inr entries, s')"
    and heap: "\<forall>a < next_addr s. heap s2 a = heap s a"
    and out: "gdfs = dict_update [(''perimeter'', p)] (dict_update [] entries)"
    by (blast dest: get_gdfs_Inr)
  from lay have all2: "list_all2 (\<lambda>item entry. fst entry = fst item
         \<and> (\<exists>w w'. get_gdf L (fst item) p (heap s2 (snd item)) w = (Inr (snd entry), w')))
       ?others entries"
    by (rule get_layers_Inr)
  then have "list_all2 (\<lambda>item entry. fst item = fst entry) ?others entries"
    by (rule list_all2_mono) auto
  then have names: "map fst entries = map fst ?others"
    by (simp add: list_all2_conv_all_nth list_eq_iff_nth_eq)
  have "map fst ?others = filter (\<lambda>k. k \<noteq> ''perimeter'') (map fst layers_dict)"
    by (simp add: filter_map comp_def)
  with keys names have d: "distinct (map fst entries)" 
    and np: "''perimeter'' \<notin> fst ` set entries"
    and ks: "fst ` set entries = fst ` set layers_dict - {''perimeter''}"
    by (auto simp flip: set_map)
  from d have "dict_update [] entries = entries"
    by (simp add: dict_update_append)
  with d np out have gdfs: "gdfs = (''perimeter'', p) # entries"
    by (simp add: dict_update_append)
  have "\<exists>gdf w w'. map_of gdfs layer = Some gdf
         \<and> get_gdf L layer p (heap s a) w = (Inr gdf, w')"
    if item: "(layer, a) \<in> set layers_dict" and l: "layer \<noteq> ''perimeter''" for layer a
  proof -
    from item l have "(layer, a) \<in> set ?others" by simp
    with all2 obtain entry where e: "entry \<in> set entries" and n: "fst entry = layer"
      and g: "\<exists>w w'. get_gdf L layer p (heap s2 a) w = (Inr (snd entry), w')"
      by (fastforce dest: list_all2_pick)
    from e n d have "map_of entries layer = Some (snd entry)"
      by (cases entry) auto
    with l gdfs have m: "map_of gdfs layer = Some (snd entry)" by simp
    from item addrs heap have "heap s2 a = heap s a" by auto
    with g m show ?thesis by auto
  qed
  with gdfs ks show ?thesis by auto
qed

theorem get_gdfs_keys_and_values_witness:
  "fst (get_gdfs rect_library (QStr ''Paris'') [(''building'', 0), (''perimeter'', 2), (''streets'', 1)]
         (Some 4) 1 (Some 1) 0 store0)
     = Inr [(''perimeter'', \<lparr>crs = Some 4326, rows = [(0, Rect 15 5 25 15)]\<rparr>),
          (''building'', \<lparr>crs = Some 4326, rows = [(1, Rect 10 8 20 20)]\<rparr>),
          (''streets'', \<lparr>crs = Some 4326, rows = [(7, Rect 15 5 25 5)]\<rparr>)]
   \<and> distinct (map fst [(''building'', 0), (''perimeter'', 2), (''streets'', 1)])
   \<and> fst ` set [(''perimeter'', \<lparr>crs = Some 4326, rows = [(0, Rect 15 5 25 15)]\<rparr>),
          (''building'', \<lparr>crs = Some 4326, rows = [(1, Rect 10 8 20 20)]\<rparr>),
          (''streets'', \<lparr>crs = Some 4326, rows = [(7, Rect 15 5 25 5)]\<rparr>)]
       = insert ''perimeter'' (fst ` set [(''building'', 0), (''perimeter'', 2), (''streets'', 1)])
   \<and> (\<exists>perimeter gdf w w'.
         map_of [(''perimeter'', \<lparr>crs = Some 4326, rows = [(0, Rect 15 5 25 15)]\<rparr>),
          (''building'', \<lparr>crs = Some 4326, rows = [(1, Rect 10 8 20 20)]\<rparr>),
          (''streets'', \<lparr>crs = Some 4326, rows = [(7, Rect 15 5 25 5)]\<rparr>)] ''perimeter'' = Some perimeter
         \<and> map_of [(''perimeter'', \<lparr>crs = Some 4326, rows = [(0, Rect 15 5 25 15)]\<rparr>),
          (''building'', \<lparr>crs = Some 4326, rows = [(1, Rect 10 8 20 20)]\<rparr>),
          (''streets'', \<lparr>crs = Some 4326, rows = [(7, Rect 15 5 25 5)]\<rparr>)] ''building'' = Some gdf
         \<and> get_gdf rect_library ''building'' perimeter (heap store0 0) w = (Inr gdf, w'))"
proof -
  have out: "fst (get_gdfs rect_library (QStr ''Paris'') [(''building'', 0), (''perimeter'', 2), (''streets'', 1)]
         (Some 4) 1 (Some 1) 0 store0)
     = Inr [(''perimeter'', \<lparr>crs = Some 4326, rows = [(0, Rect 15 5 25 15)]\<rparr>),
          (''building'', \<lparr>crs = Some 4326, rows = [(1, Rect 10 8 20 20)]\<rparr>),
          (''streets'', \<lparr>crs = Some 4326, rows = [(7, Rect 15 5 25 5)]\<rparr>)]"
    by (simp add: get_gdfs_def store_defs perimeter_defs fetch_defs io_defs rect_defs py_defs
        frame_defs del: set_filter)
  then have run: "get_gdfs rect_library (QStr ''Paris'') [(''building'', 0), (''perimeter'', 2), (''streets'', 1)]
         (Some 4) 1 (Some 1) 0 store0
     = (Inr [(''perimeter'', \<lparr>crs = Some 4326, rows = [(0, Rect 15 5 25 15)]\<rparr>),
          (''building'', \<lparr>crs = Some 4326, rows = [(1, Rect 10 8 20 20)]\<rparr>),
          (''streets'', \<lparr>crs = Some 4326, rows = [(7, Rect 15 5 25 5)]\<rparr>)],
        snd (get_gdfs rect_library (QStr ''Paris'') [(''building'', 0), (''perimeter'', 2), (''streets'', 1)]
         (Some 4) 1 (Some 1) 0 store0))"
    by (simp add: prod_eq_iff)
  have keys: "distinct (map fst [(''building'', 0), (''perimeter'', 2), (''streets'', 1)])"
    by simp
  have addrs: "\<forall>(layer, a) \<in> set [(''building'', 0), (''perimeter'', 2), (''streets'', 1)].
       a < next_addr store0"
    by (simp add: store0_def)
  from get_gdfs_keys_and_values [OF run keys addrs] out keys show ?thesis
    by fastforce
qed


text \<open>
  C3. The string classification does not match OSM-id strings precisely: the address
  \<^verbatim>\<open>A1 Main Street\<close> is not an OSM-id string, yet parse\_query classifies it as
  \<^verbatim>\<open>osmid\<close>, because the pattern is only anchored at the start.
\<close>

theorem parse_query_prefix_only:
  "parse_query (QStr ''A1 Main Street'') = Inr ''osmid''
   \<and> \<not> osmid_string ''A1 Main Street''"
  by (simp add: is_upper_def is_digit_def osmid_string_def)

text \<open>
  C4. The frame that get\_gdf returns has no row with an empty geometry.
\<close>

theorem get_gdf_no_empty_rows:
  "get_gdf L layer perimeter kw w = (Inr gdf, w')
   \<Longrightarrow> \<forall>(i, g) \<in> set (rows gdf). \<not> geom_is_empty L g"
  by (auto dest!: get_gdf_Inr clip_rows_not_empty)

theorem get_gdf_no_empty_rows_witness:
  "get_gdf rect_library ''building'' square10 [(''tags'', PStr ''building'')] 0
       = (Inr \<lparr>crs = Some 4326, rows = [(1, Rect 8 8 10 10), (2, Rect 2 2 4 4)]\<rparr>, 1)
   \<and> \<not> geom_is_empty rect_library (Rect 8 8 10 10)
   \<and> \<not> geom_is_empty rect_library (Rect 2 2 4 4)"
proof -
  have run: "get_gdf rect_library ''building'' square10 [(''tags'', PStr ''building'')] 0
       = (Inr \<lparr>crs = Some 4326, rows = [(1, Rect 8 8 10 10), (2, Rect 2 2 4 4)]\<rparr>, 1)"
    by (simp add: fetch_defs io_defs rect_defs py_defs frame_defs square10_def
        del: set_filter)
  from get_gdf_no_empty_rows [OF run] show ?thesis using run by auto
qed




text \<open>
  C6, as stated, fails. With a negative dilation the perimeter that get\_perimeter returns
  (and that get\_gdfs stores under \<^verbatim>\<open>perimeter\<close>) is empty: around the point (10, 20),
  with radius 5 and \<^verbatim>\<open>dilate = -10\<close>.
\<close>

theorem empty_perimeter_returned:
  "get_perimeter rect_library (QTuple [10, 20]) (Some 5) 1 (PBool False) (PBool False)
       (Some (- 10)) 0 [] 0
     = (Inr \<lparr>crs = Some 4326, rows = [(0, Empty)]\<rparr>, 0)
   \<and> fst (get_gdfs rect_library (QTuple [10, 20]) [] (Some 5) 1 (Some (- 10)) 0 store0)
       = Inr [(''perimeter'', \<lparr>crs = Some 4326, rows = [(0, Empty)]\<rparr>)]
   \<and> geom_is_empty rect_library Empty"
  by (simp add: get_gdfs_def store_defs perimeter_defs io_defs rect_defs py_defs frame_defs)

text \<open>
  C6, amended. The perimeter that get\_perimeter returns, and the value that get\_gdfs
  stores under \<^verbatim>\<open>perimeter\<close>, is a frame returned by the conversion to EPSG:4326, so
  it is in EPSG:4326 when the conversion of the library gives the system it is asked for.
  The module checks neither that the perimeter is valid nor that it is not empty.
\<close>

theorem perimeter_is_converted_to_4326:
  assumes "to_crs_sets_crs L"
  shows "(get_perimeter L query radius ratio by_osmid circle dilate rotation kwargs w
            = (Inr perimeter, w') \<longrightarrow> crs perimeter = Some 4326)
     \<and> (get_gdfs L query layers_dict radius ratio dilate rotation s = (Inr gdfs, s')
          \<longrightarrow> (\<exists>p. map_of gdfs ''perimeter'' = Some p \<and> crs p = Some 4326))"
proof (intro conjI impI)
  assume "get_perimeter L query radius ratio by_osmid circle dilate rotation kwargs w
            = (Inr perimeter, w')"
  then obtain frame where "to_crs L frame 4326 = Inr perimeter"
    by (blast dest: get_perimeter_Inr)
  with assms show "crs perimeter = Some 4326"
    by (simp add: to_crs_sets_crs_def)
next
  assume "get_gdfs L query layers_dict radius ratio dilate rotation s = (Inr gdfs, s')"
  then obtain p entries kw s2 where
    per: "call_get_perimeter L query radius ratio rotation dilate kw (world s) = (Inr p, world s2)"
    and lay: "get_layers L p layers_dict s2 = (Inr entries, s')"
    and out: "gdfs = dict_update [(''perimeter'', p)] (dict_update [] entries)"
    by (blast dest: get_gdfs_Inr)
  from lay have "''perimeter'' \<notin> set (map fst entries)"
    by (simp add: get_layers_names)
  then have "''perimeter'' \<notin> fst ` set (dict_update [] entries)"
    by (simp add: keys_dict_update)
  then have "map_of (rev (dict_update [] entries)) ''perimeter'' = None"
    by (simp add: map_of_eq_None_iff)
  with out have m: "map_of gdfs ''perimeter'' = Some p"
    by (simp add: map_of_dict_update map_add_def)
  from per obtain frame where "to_crs L frame 4326 = Inr p"
    by (blast dest: call_get_perimeter_Inr)
  with assms have "crs p = Some 4326"
    by (simp add: to_crs_sets_crs_def)
  with m show "\<exists>p. map_of gdfs ''perimeter'' = Some p \<and> crs p = Some 4326"
    by blast
qed

theorem perimeter_is_converted_to_4326_witness:
  "to_crs_sets_crs rect_library
   \<and> get_perimeter rect_library (QStr ''Paris'') (Some 4) 1 (PBool False) (PBool True)
         (Some 1) 0 [] 0
       = (Inr \<lparr>crs = Some 4326, rows = [(0, Rect 15 5 25 15)]\<rparr>, 1)
   \<and> crs \<lparr>crs = Some 4326, rows = [(0, Rect 15 5 25 15)]\<rparr> = Some 4326"
proof -
  have run: "get_perimeter rect_library (QStr ''Paris'') (Some 4) 1 (PBool False) (PBool True)
         (Some 1) 0 [] 0
       = (Inr \<lparr>crs = Some 4326, rows = [(0, Rect 15 5 25 15)]\<rparr>, 1)"
    by (simp add: perimeter_defs io_defs rect_defs py_defs frame_defs)
  from perimeter_is_converted_to_4326 [OF rect_to_crs_sets_crs] run show ?thesis
    using rect_to_crs_sets_crs by blast
qed


text \<open>
  C7. get\_gdfs is deterministic. Take two runs with the same query, radius, ratio, dilate
  and rotation and with the same layers dictionary: the same layer names in the same
  order, with equal options. The two stores may differ in everything else (other
  dictionaries, the next free address, the addresses of the options), and the two worlds
  may differ as long as the services answer alike in them. Then the two runs give the
  same result: equal dictionaries, or the same error. So it is for a second run that
  starts in the store and the world that a first run leaves.
\<close>

theorem get_gdfs_deterministic:
  assumes L: "answers_alike R L" and R: "R (world s1) (world s2)"
    and ld: "list_all2 (\<lambda>(layer1, a1) (layer2, a2). layer1 = layer2
         \<and> a1 < next_addr s1 \<and> a2 < next_addr s2 \<and> heap s1 a1 = heap s2 a2)
       layers_dict1 layers_dict2"
  shows "fst (get_gdfs L query layers_dict1 radius ratio dilate rotation s1)
       = fst (get_gdfs L query layers_dict2 radius ratio dilate rotation s2)"
proof -
  let ?f1 = "fetch_perimeter L query layers_dict1 radius ratio dilate rotation s1"
  let ?f2 = "fetch_perimeter L query layers_dict2 radius ratio dilate rotation s2"
  from ld have ld': "list_all2 (\<lambda>i1 i2. fst i1 = fst i2
         \<and> (snd i1 < next_addr s1 \<and> snd i2 < next_addr s2 \<and> heap s1 (snd i1) = heap s2 (snd i2)))
       layers_dict1 layers_dict2"
    by (rule list_all2_mono) auto
  then have "rel_option (\<lambda>a1 a2. a1 < next_addr s1 \<and> a2 < next_addr s2 \<and> heap s1 a1 = heap s2 a2)
       (map_of layers_dict1 ''perimeter'') (map_of layers_dict2 ''perimeter'')"
    by (rule map_of_alike)
  with L R have f: "fst ?f1 = fst ?f2" and R': "R (world (snd ?f1)) (world (snd ?f2))"
    using fetch_perimeter_alike [of R L s1 s2 layers_dict1 layers_dict2] by simp_all
  show ?thesis
  proof (cases "fst ?f1")
    case (Inl e)
    with f [symmetric] show ?thesis
      by (simp add: get_gdfs_phases fst_and_then)
  next
    case (Inr p)
    have h1: "\<forall>a < next_addr s1. heap (snd ?f1) a = heap s1 a"
      by (rule fetch_perimeter_frame [of L query layers_dict1 radius ratio dilate rotation s1 "fst ?f1"])
        simp
    have h2: "\<forall>a < next_addr s2. heap (snd ?f2) a = heap s2 a"
      by (rule fetch_perimeter_frame [of L query layers_dict2 radius ratio dilate rotation s2 "fst ?f2"])
        simp
    from ld' have items: "list_all2 (\<lambda>i1 i2. fst i1 = fst i2
         \<and> heap (snd ?f1) (snd i1) = heap (snd ?f2) (snd i2)) layers_dict1 layers_dict2"
      by (rule list_all2_mono) (use h1 h2 in auto)
    have "fst (get_layers L p layers_dict1 (snd ?f1))
        = fst (get_layers L p layers_dict2 (snd ?f2))"
      by (rule get_layers_alike [OF L items R']) simp_all
    with Inr f [symmetric] show ?thesis
      by (simp add: get_gdfs_phases fst_and_then ret_def split: sum.splits)
  qed
qed

theorem get_gdfs_deterministic_witness:
  "answers_alike (\<lambda>m n. True) rect_library
   \<and> world store0 = 0 \<and> next_addr store0 = 3
   \<and> world (snd (get_gdfs rect_library (QStr ''Paris'')
          [(''building'', 0), (''perimeter'', 2), (''streets'', 1)] (Some 4) 1 (Some 1) 0 store0))
       = 3
   \<and> next_addr (snd (get_gdfs rect_library (QStr ''Paris'')
          [(''building'', 0), (''perimeter'', 2), (''streets'', 1)] (Some 4) 1 (Some 1) 0 store0))
       = 5
   \<and> fst (get_gdfs rect_library (QStr ''Paris'')
          [(''building'', 0), (''perimeter'', 2), (''streets'', 1)] (Some 4) 1 (Some 1) 0 store0)
     = fst (get_gdfs rect_library (QStr ''Paris'')
          [(''building'', 0), (''perimeter'', 2), (''streets'', 1)] (Some 4) 1 (Some 1) 0
          (snd (get_gdfs rect_library (QStr ''Paris'')
             [(''building'', 0), (''perimeter'', 2), (''streets'', 1)] (Some 4) 1 (Some 1) 0
             store0)))"
proof -
  let ?ld = "[(''building'', 0), (''perimeter'', 2), (''streets'', 1)] :: (string \<times> nat) list"
  let ?after = "snd (get_gdfs rect_library (QStr ''Paris'') ?ld (Some 4) 1 (Some 1) 0 store0)"
  have after: "world ?after = 3 \<and> next_addr ?after = 5
      \<and> heap ?after 0 = heap store0 0 \<and> heap ?after 1 = heap store0 1
      \<and> heap ?after 2 = heap store0 2"
    by (simp add: get_gdfs_def store_defs perimeter_defs fetch_defs io_defs rect_defs py_defs
        frame_defs del: set_filter)
  have before: "world store0 = 0 \<and> next_addr store0 = 3"
    by (simp add: store0_def)
  from after before have same: "list_all2 (\<lambda>(layer1, a1) (layer2, a2). layer1 = layer2
       \<and> a1 < next_addr store0 \<and> a2 < next_addr ?after \<and> heap store0 a1 = heap ?after a2)
     ?ld ?ld"
    by simp
  have "fst (get_gdfs rect_library (QStr ''Paris'') ?ld (Some 4) 1 (Some 1) 0 store0)
      = fst (get_gdfs rect_library (QStr ''Paris'') ?ld (Some 4) 1 (Some 1) 0 ?after)"
    by (rule get_gdfs_deterministic [OF rect_answers_alike _ same]) simp
  with after before rect_answers_alike show ?thesis by simp
qed

text \<open>
  C8. Every dictionary that exists when get\_gdfs is called, so the options of every
  layer, is the same after the call, whether get\_gdfs returns or raises: the option
  \<^verbatim>\<open>dilate\<close> is popped from a copy at a new address.
\<close>

theorem get_gdfs_keeps_dictionaries:
  assumes "get_gdfs L query layers_dict radius ratio dilate rotation s = (result, s')"
    and "a < next_addr s"
  shows "heap s' a = heap s a"
  using get_gdfs_frame [OF assms(1)] assms(2) by simp

theorem get_gdfs_keeps_dictionaries_witness:
  "2 < next_addr store0
   \<and> heap store0 2 = [(''dilate'', PNum 3), (''circle'', PBool True)]
   \<and> heap (snd (get_gdfs rect_library (QStr ''Paris'') [(''building'', 0), (''perimeter'', 2), (''streets'', 1)]
         (Some 4) 1 (Some 1) 0 store0)) 2
       = [(''dilate'', PNum 3), (''circle'', PBool True)]
   \<and> heap (snd (get_gdfs rect_library (QStr ''Paris'') [(''building'', 0), (''perimeter'', 2), (''streets'', 1)]
         (Some 4) 1 (Some 1) 0 store0)) 4
       = [(''circle'', PBool True)]"
proof -
  have a: "(2::nat) < next_addr store0"
    by (simp add: store0_def)
  have copy: "heap (snd (get_gdfs rect_library (QStr ''Paris'') [(''building'', 0), (''perimeter'', 2), (''streets'', 1)]
         (Some 4) 1 (Some 1) 0 store0)) 4
       = [(''circle'', PBool True)]"
    by (simp add: get_gdfs_def store_defs perimeter_defs fetch_defs io_defs rect_defs py_defs
        frame_defs del: set_filter)
  have "heap store0 2 = [(''dilate'', PNum 3), (''circle'', PBool True)]"
    by (simp add: store0_def)
  with get_gdfs_keeps_dictionaries [OF surjective_pairing a] a copy show ?thesis
    by simp
qed


text \<open>
  C9. When the layers dictionary has the key \<^verbatim>\<open>perimeter\<close> and the options stored
  there have no key \<^verbatim>\<open>dilate\<close>, get\_gdfs raises KeyError, and no request has been made:
  the world is as it was.
\<close>

theorem perimeter_without_dilate:
  assumes "map_of layers_dict ''perimeter'' = Some a"
    and "map_of (heap s a) ''dilate'' = None"
  shows "fst (get_gdfs L query layers_dict radius ratio dilate rotation s) = Inl KeyError
     \<and> world (snd (get_gdfs L query layers_dict radius ratio dilate rotation s)) = world s"
  using assms
  by (simp add: get_gdfs_def and_then_def new_dict_def deepcopy_def read_dict_def dict_pop_def)

theorem perimeter_without_dilate_witness:
  "map_of [(''building'', 0), (''perimeter'', 1)] ''perimeter'' = Some (1::nat)
   \<and> map_of (heap store0 1) ''dilate'' = None
   \<and> fst (get_gdfs rect_library (QStr ''Paris'') [(''building'', 0), (''perimeter'', 1)]
           (Some 4) 1 None 0 store0) = Inl KeyError
   \<and> world (snd (get_gdfs rect_library (QStr ''Paris'') [(''building'', 0), (''perimeter'', 1)]
           (Some 4) 1 None 0 store0)) = 0"
proof -
  have k: "map_of [(''building'', 0), (''perimeter'', 1)] ''perimeter'' = Some (1::nat)"
    by simp
  have d: "map_of (heap store0 1) ''dilate'' = None"
    by (simp add: store0_def)
  have "world store0 = 0"
    by (simp add: store0_def)
  with perimeter_without_dilate [OF k d, of rect_library "QStr ''Paris''" "Some 4" 1 None 0]
    k d show ?thesis by simp
qed


text \<open>
  C10. With radius 0, get\_perimeter does what it does with radius None: no boundary is
  built around a point; a GeoDataFrame is taken as the perimeter itself, any other query
  is geocoded; then the dilation is applied.
\<close>

theorem radius_zero_is_no_radius:
  "get_perimeter L query (Some 0) ratio by_osmid circle dilate rotation kwargs
     = get_perimeter L query None ratio by_osmid circle dilate rotation kwargs
   \<and> get_perimeter L (QGdf frame) (Some 0) ratio by_osmid circle dilate rotation kwargs w
       = (apply_dilation L dilate frame, w)
   \<and> get_perimeter L (QStr name) (Some 0) ratio by_osmid circle dilate rotation kwargs
       = and_then (geocode_to_gdf L (QStr name) by_osmid kwargs)
           (\<lambda>perimeter. lift (apply_dilation L dilate perimeter))
   \<and> get_perimeter L (QTuple point) (Some 0) ratio by_osmid circle dilate rotation kwargs
       = and_then (geocode_to_gdf L (QTuple point) by_osmid kwargs)
           (\<lambda>perimeter. lift (apply_dilation L dilate perimeter))"
  by (simp add: get_perimeter_def polygon_or_geocoded_def and_then_def lift_def ret_def)


end
